theory Spec2Isabelle
  imports Complex_Main
begin

section \<open>The image handler of the multi-image viewer\<close>

text \<open>
  A shallow embedding of \<^verbatim>\<open>src/image_handler.py\<close> (class \<^verbatim>\<open>ImageHandler\<close>).
  Methods take the handler's fields as a record and return the result together with the
  updated record. Python's \<^verbatim>\<open>int\<close> is \<^typ>\<open>int\<close>; an exception caught by the method's own
  \<^verbatim>\<open>except Exception\<close> is the \<open>None\<close> branch of an option.
\<close>

subsection \<open>Data\<close>

text \<open>
  A decoded PIL image. The methods read nothing of it but \<^verbatim>\<open>img.size\<close>, a pair
  (width, height).
\<close>

record pil_image =
  img_size :: "int \<times> int"

text \<open>
  The fields set by \<^verbatim>\<open>__init__\<close>. \<open>'p\<close> is the type of \<^verbatim>\<open>ImageTk.PhotoImage\<close> objects.
\<close>

record 'p image_handler =
  images :: "string list"
  current_index :: int
  current_image :: "'p option"
  original_image :: "pil_image option"

definition init :: "'p image_handler" where
  "init = \<lparr>images = [], current_index = 0, current_image = None, original_image = None\<rparr>"

text \<open>
  What the class calls and does not define: the file system, the PIL library and float
  arithmetic. Each field stands for one call of the source; a field of option type is
  \<open>None\<close> where the call raises. \<open>'f\<close> is the type of Python floats.

  \<^item> \<open>path_exists\<close>: \<^verbatim>\<open>os.path.exists(file_path)\<close>
  \<^item> \<open>image_open\<close>: \<^verbatim>\<open>Image.open(path)\<close>
  \<^item> \<open>image_verify\<close>: \<^verbatim>\<open>img.verify()\<close> returns without raising
  \<^item> \<open>image_copy\<close>: \<^verbatim>\<open>img.copy()\<close>, which reads the pixel data
  \<^item> \<open>truediv\<close>: \<^verbatim>\<open>a / b\<close> on two ints
  \<^item> \<open>fmin\<close>: \<^verbatim>\<open>min(x, y)\<close> on two floats
  \<^item> \<open>lt_one\<close>: \<^verbatim>\<open>ratio < 1\<close>
  \<^item> \<open>mul_trunc\<close>: \<^verbatim>\<open>int(n * ratio)\<close>
  \<^item> \<open>image_resize\<close>: \<^verbatim>\<open>img.resize((new_width, new_height), Image.Resampling.LANCZOS)\<close>
  \<^item> \<open>photo_image\<close>: \<^verbatim>\<open>ImageTk.PhotoImage(resized_img)\<close>
\<close>

record ('f, 'p) pil =
  path_exists :: "string \<Rightarrow> bool"
  image_open :: "string \<Rightarrow> pil_image option"
  image_verify :: "pil_image \<Rightarrow> bool"
  image_copy :: "pil_image \<Rightarrow> pil_image option"
  truediv :: "int \<Rightarrow> int \<Rightarrow> 'f option"
  fmin :: "'f \<Rightarrow> 'f \<Rightarrow> 'f"
  lt_one :: "'f \<Rightarrow> bool"
  mul_trunc :: "int \<Rightarrow> 'f \<Rightarrow> int option"
  image_resize :: "pil_image \<Rightarrow> int \<times> int \<Rightarrow> pil_image option"
  photo_image :: "pil_image \<Rightarrow> 'p option"

subsection \<open>Python list indexing\<close>

text \<open>
  \<^verbatim>\<open>xs[i]\<close>: a negative index counts from the end; \<open>None\<close> is IndexError.
\<close>

definition py_index :: "'a list \<Rightarrow> int \<Rightarrow> 'a option" where
  "py_index xs i =
     (let n = int (length xs);
          j = (if i < 0 then n + i else i)
      in if 0 \<le> j \<and> j < n then Some (xs ! nat j) else None)"

subsection \<open>Loading a batch of paths\<close>

text \<open>\<^verbatim>\<open>is_valid_image\<close>: every exception inside the \<^verbatim>\<open>try\<close> gives \<^verbatim>\<open>False\<close>.\<close>

definition is_valid_image :: "('f, 'p) pil \<Rightarrow> string \<Rightarrow> bool" where
  "is_valid_image lib file_path =
     (if \<not> path_exists lib file_path then False
      else case image_open lib file_path of
             None \<Rightarrow> False
           | Some img \<Rightarrow> image_verify lib img)"

text \<open>
  The \<^verbatim>\<open>for path in file_paths\<close> loop of \<^verbatim>\<open>load_images\<close>, with the list
  \<^verbatim>\<open>valid_images\<close> built so far as accumulator.
\<close>

fun collect_valid :: "('f, 'p) pil \<Rightarrow> string list \<Rightarrow> string list \<Rightarrow> string list" where
  "collect_valid lib [] valid_images = valid_images"
| "collect_valid lib (path # file_paths) valid_images =
     (if is_valid_image lib path
      then collect_valid lib file_paths (valid_images @ [path])
      else collect_valid lib file_paths valid_images)"

definition load_images ::
  "('f, 'p) pil \<Rightarrow> string list \<Rightarrow> 'q image_handler \<Rightarrow> bool \<times> 'q image_handler" where
  "load_images lib file_paths self =
     (let valid_images = collect_valid lib file_paths []
      in if valid_images \<noteq> []
         then (True, self\<lparr>images := valid_images, current_index := 0\<rparr>)
         else (False, self))"

subsection \<open>Rendering the current image\<close>

text \<open>
  Lines 107 to 118 of \<^verbatim>\<open>load_current_image\<close>: the ratio, the resize or copy, and the
  conversion to a PhotoImage. \<open>None\<close> where one of the calls raises.
\<close>

definition fit_image :: "('f, 'p) pil \<Rightarrow> int \<Rightarrow> int \<Rightarrow> pil_image \<Rightarrow> 'p option" where
  "fit_image lib target_width target_height img =
     (case img_size img of (img_width, img_height) \<Rightarrow>
        (case truediv lib target_width img_width of
           None \<Rightarrow> None
         | Some rw \<Rightarrow>
        (case truediv lib target_height img_height of
           None \<Rightarrow> None
         | Some rh \<Rightarrow>
        (let ratio = fmin lib rw rh in
         (case (if lt_one lib ratio
                then (case mul_trunc lib img_width ratio of
                        None \<Rightarrow> None
                      | Some new_width \<Rightarrow>
                     (case mul_trunc lib img_height ratio of
                        None \<Rightarrow> None
                      | Some new_height \<Rightarrow> image_resize lib img (new_width, new_height)))
                else image_copy lib img) of
            None \<Rightarrow> None
          | Some resized_img \<Rightarrow> photo_image lib resized_img)))))"

text \<open>
  \<^verbatim>\<open>load_current_image\<close>. The guard of line 96 returns before the \<^verbatim>\<open>try\<close>; inside it,
  \<^verbatim>\<open>self.original_image\<close> is assigned at line 104, before the calls that may still raise.
\<close>

definition load_current_image ::
  "('f, 'p) pil \<Rightarrow> int \<Rightarrow> int \<Rightarrow> 'p image_handler \<Rightarrow> 'p option \<times> 'p image_handler" where
  "load_current_image lib target_width target_height self =
     (if images self = [] \<or> current_index self \<ge> int (length (images self))
      then (None, self)
      else case py_index (images self) (current_index self) of
             None \<Rightarrow> (None, self)
           | Some image_path \<Rightarrow>
          (case image_open lib image_path of
             None \<Rightarrow> (None, self)
           | Some img \<Rightarrow>
          (case image_copy lib img of
             None \<Rightarrow> (None, self)
           | Some original \<Rightarrow>
          (let self1 = self\<lparr>original_image := Some original\<rparr>
           in case fit_image lib target_width target_height img of
                None \<Rightarrow> (None, self1)
              | Some photo \<Rightarrow> (Some photo, self1\<lparr>current_image := Some photo\<rparr>)))))"

subsection \<open>Navigation and queries\<close>

definition next_image :: "'p image_handler \<Rightarrow> bool \<times> 'p image_handler" where
  "next_image self =
     (if images self = [] then (False, self)
      else if current_index self < int (length (images self)) - 1
      then (True, self\<lparr>current_index := current_index self + 1\<rparr>)
      else (False, self))"

definition previous_image :: "'p image_handler \<Rightarrow> bool \<times> 'p image_handler" where
  "previous_image self =
     (if images self = [] then (False, self)
      else if current_index self > 0
      then (True, self\<lparr>current_index := current_index self - 1\<rparr>)
      else (False, self))"

definition has_images :: "'p image_handler \<Rightarrow> bool" where
  "has_images self = (length (images self) > 0)"

definition has_next :: "'p image_handler \<Rightarrow> bool" where
  "has_next self = (current_index self < int (length (images self)) - 1)"

definition has_previous :: "'p image_handler \<Rightarrow> bool" where
  "has_previous self = (current_index self > 0)"

definition get_original_size :: "'p image_handler \<Rightarrow> (int \<times> int) option" where
  "get_original_size self =
     (case original_image self of
        None \<Rightarrow> None
      | Some img \<Rightarrow> Some (img_size img))"

subsection \<open>Sequences of calls\<close>

text \<open>
  One call of a method that changes the handler. A call that reaches the file system or
  PIL carries the library as it answers during that call, so files may change between
  two calls.
\<close>

datatype ('f, 'p) call =
  Load "('f, 'p) pil" "string list"
| Render "('f, 'p) pil" int int
| Next
| Previous

fun step :: "('f, 'p) call \<Rightarrow> 'p image_handler \<Rightarrow> 'p image_handler" where
  "step (Load lib file_paths) self = snd (load_images lib file_paths self)"
| "step (Render lib w h) self = snd (load_current_image lib w h self)"
| "step Next self = snd (next_image self)"
| "step Previous self = snd (previous_image self)"

fun run :: "('f, 'p) call list \<Rightarrow> 'p image_handler \<Rightarrow> 'p image_handler" where
  "run [] self = self"
| "run (c # cs) self = run cs (step c self)"

text \<open>The cursor is a valid position of a non-empty list.\<close>

definition cursor_ok :: "'p image_handler \<Rightarrow> bool" where
  "cursor_ok self =
     (images self \<noteq> [] \<longrightarrow>
        0 \<le> current_index self \<and> current_index self < int (length (images self)))"

subsection \<open>An example library\<close>

text \<open>
  A file system and library for closed instances: three images, \<^verbatim>\<open>a.jpg\<close> of size 4 by 2,
  \<^verbatim>\<open>b.png\<close> of size 2 by 2 and \<^verbatim>\<open>wide.png\<close> of size 8 by 1, and a text file that exists
  and does not open as an image. A resize to a size that is not positive raises, and a
  PhotoImage is known by its size. Floats are rationals here: the instances below use only
  the quotients 8/4, 8/2, 2/4, 2/2, 2/8, 2/1, -5/4 and -5/2 and their products with 8, 4,
  2 and 1, all of which a float holds exactly.
\<close>

definition example_lib :: "(rat, int \<times> int) pil" where
  "example_lib =
     \<lparr>path_exists = (\<lambda>p. p = ''a.jpg'' \<or> p = ''b.png'' \<or> p = ''wide.png'' \<or>
                          p = ''not_an_image.txt''),
      image_open = (\<lambda>p. if p = ''a.jpg'' then Some \<lparr>img_size = (4, 2)\<rparr>
                         else if p = ''b.png'' then Some \<lparr>img_size = (2, 2)\<rparr>
                         else if p = ''wide.png'' then Some \<lparr>img_size = (8, 1)\<rparr>
                         else None),
      image_verify = (\<lambda>img. True),
      image_copy = (\<lambda>img. Some img),
      truediv = (\<lambda>a b. if b = 0 then None else Some (rat_of_int a / rat_of_int b)),
      fmin = min,
      lt_one = (\<lambda>ratio. ratio < 1),
      mul_trunc = (\<lambda>n ratio. Some (if 0 \<le> rat_of_int n * ratio
                                      then \<lfloor>rat_of_int n * ratio\<rfloor>
                                      else \<lceil>rat_of_int n * ratio\<rceil>)),
      image_resize = (\<lambda>img (w, h). if 0 < w \<and> 0 < h then Some \<lparr>img_size = (w, h)\<rparr> else None),
      photo_image = (\<lambda>img. Some (img_size img))\<rparr>"

text \<open>The same library after \<^verbatim>\<open>b.png\<close> has been removed from the disk.\<close>

definition example_lib_removed :: "(rat, int \<times> int) pil" where
  "example_lib_removed =
     example_lib
       \<lparr>path_exists := (\<lambda>p. p = ''a.jpg'' \<or> p = ''not_an_image.txt''),
        image_open := (\<lambda>p. if p = ''a.jpg'' then Some \<lparr>img_size = (4, 2)\<rparr> else None)\<rparr>"

text \<open>
  A handler that shows \<^verbatim>\<open>a.jpg\<close> of the set \<^verbatim>\<open>[a.jpg, b.png]\<close>, as it is after a load and
  a render into a frame of 8 by 8.
\<close>

definition example_handler :: "(int \<times> int) image_handler" where
  "example_handler =
     \<lparr>images = [''a.jpg'', ''b.png''], current_index = 0,
      current_image = Some (4, 2), original_image = Some \<lparr>img_size = (4, 2)\<rparr>\<rparr>"


section \<open>Properties\<close>

lemma collect_valid_filter:
  "collect_valid lib file_paths acc = acc @ filter (is_valid_image lib) file_paths"
  by (induction file_paths arbitrary: acc) simp_all

subsection \<open>Evaluating the example\<close>

lemma example_valid [simp]:
  "is_valid_image example_lib ''a.jpg''"
  "is_valid_image example_lib ''b.png''"
  "\<not> is_valid_image example_lib ''not_an_image.txt''"
  "\<not> is_valid_image example_lib ''missing.gif''"
  by (simp_all add: is_valid_image_def example_lib_def)

lemma example_open:
  "image_open example_lib ''a.jpg'' = Some \<lparr>img_size = (4, 2)\<rparr>"
  "image_open example_lib ''b.png'' = Some \<lparr>img_size = (2, 2)\<rparr>"
  "image_copy example_lib img = Some img"
  "image_open example_lib_removed ''b.png'' = None"
  "image_open example_lib ''wide.png'' = Some \<lparr>img_size = (8, 1)\<rparr>"
  by (simp_all add: example_lib_def example_lib_removed_def)

lemma example_load:
  "load_images example_lib [''a.jpg'', ''not_an_image.txt'', ''b.png''] init =
     (True, \<lparr>images = [''a.jpg'', ''b.png''], current_index = 0,
             current_image = None, original_image = None\<rparr>)"
  by (simp add: load_images_def init_def)

lemma example_fit_a:
  "fit_image example_lib 8 8 \<lparr>img_size = (4, 2)\<rparr> = Some (4, 2)"
  by (simp add: fit_image_def example_lib_def)

lemma example_fit_negative:
  "fit_image example_lib (- 5) (- 5) \<lparr>img_size = (4, 2)\<rparr> = None"
  by (simp add: fit_image_def example_lib_def)






lemma example_render:
  "load_current_image example_lib 8 8
     \<lparr>images = [''a.jpg'', ''b.png''], current_index = 0,
      current_image = None, original_image = None\<rparr> = (Some (4, 2), example_handler)"
  by (simp add: load_current_image_def py_index_def example_open example_fit_a
      example_handler_def)

lemma example_handler_run:
  "run [Load example_lib [''a.jpg'', ''not_an_image.txt'', ''b.png''], Render example_lib 8 8] init
     = example_handler"
  by (simp add: example_load example_render)

lemma example_run_next:
  "run [Load example_lib [''a.jpg'', ''not_an_image.txt'', ''b.png''], Render example_lib 8 8,
        Next] init = example_handler\<lparr>current_index := 1\<rparr>"
  by (simp add: example_load example_render next_image_def example_handler_def)

lemma example_run_navigation:
  "run [Load example_lib [''a.jpg'', ''not_an_image.txt'', ''b.png''], Render example_lib 8 8,
        Next, Next, Previous] init = example_handler"
  by (simp add: example_load example_render next_image_def previous_image_def
      example_handler_def)

subsection \<open>Facts shared by the proofs\<close>

lemma py_index_guard:
  "xs = [] \<or> i \<ge> int (length xs) \<or> i < - int (length xs) \<Longrightarrow> py_index xs i = None"
  by (auto simp: py_index_def Let_def)

lemma load_current_image_frame:
  "images (snd (load_current_image lib w h self)) = images self"
  "current_index (snd (load_current_image lib w h self)) = current_index self"
  by (simp_all add: load_current_image_def Let_def split: option.splits)

lemma cursor_ok_init: "cursor_ok init"
  by (simp add: cursor_ok_def init_def)

lemma cursor_ok_load_images: "cursor_ok self \<Longrightarrow> cursor_ok (snd (load_images lib file_paths self))"
  by (simp add: cursor_ok_def load_images_def Let_def)

lemma cursor_ok_next_image: "cursor_ok self \<Longrightarrow> cursor_ok (snd (next_image self))"
  by (simp add: cursor_ok_def next_image_def)

lemma cursor_ok_previous_image: "cursor_ok self \<Longrightarrow> cursor_ok (snd (previous_image self))"
  by (auto simp: cursor_ok_def previous_image_def)

lemma cursor_ok_step: "cursor_ok self \<Longrightarrow> cursor_ok (step c self)"
proof (cases c)
  case (Load lib file_paths)
  assume "cursor_ok self"
  with Load show ?thesis by (simp add: cursor_ok_load_images)
next
  case (Render lib w h)
  assume "cursor_ok self"
  with Render show ?thesis by (simp add: cursor_ok_def load_current_image_frame)
next
  case Next
  assume "cursor_ok self"
  with Next show ?thesis by (simp add: cursor_ok_next_image)
next
  case Previous
  assume "cursor_ok self"
  with Previous show ?thesis by (simp add: cursor_ok_previous_image)
qed

lemma cursor_ok_run: "cursor_ok self \<Longrightarrow> cursor_ok (run cs self)"
  by (induction cs arbitrary: self) (simp_all add: cursor_ok_step)

subsection \<open>Loading\<close>

text \<open>
  C2. When at least one path of the batch is a valid image, \<open>load_images\<close> returns
  \<open>True\<close>, the list of paths becomes exactly the valid paths of the batch in their
  original order (the batch filtered by \<open>is_valid_image\<close>), and the cursor is 0. The
  other fields stay as they were.
\<close>

theorem load_images_valid_batch:
  assumes "filter (is_valid_image lib) file_paths \<noteq> []"
  shows "load_images lib file_paths self =
           (True, self\<lparr>images := filter (is_valid_image lib) file_paths, current_index := 0\<rparr>)"
  using assms by (simp add: load_images_def collect_valid_filter)

text \<open>
  The scenario of the specification: of \<^verbatim>\<open>a.jpg\<close>, \<^verbatim>\<open>not_an_image.txt\<close> and \<^verbatim>\<open>b.png\<close>
  the two images are kept, in a handler that held three paths with the cursor on the last.
\<close>

theorem load_images_valid_batch_witness:
  "filter (is_valid_image example_lib) [''a.jpg'', ''not_an_image.txt'', ''b.png''] \<noteq> [] \<and>
   load_images example_lib [''a.jpg'', ''not_an_image.txt'', ''b.png'']
     \<lparr>images = [''b.png'', ''a.jpg'', ''b.png''], current_index = 2,
      current_image = None :: (int \<times> int) option, original_image = None\<rparr>
   = (True, \<lparr>images = [''a.jpg'', ''b.png''], current_index = 0,
             current_image = None, original_image = None\<rparr>)"
  using load_images_valid_batch [of example_lib "[''a.jpg'', ''not_an_image.txt'', ''b.png'']"
      "\<lparr>images = [''b.png'', ''a.jpg'', ''b.png''], current_index = 2,
        current_image = None :: (int \<times> int) option, original_image = None\<rparr>"]
  by simp

text \<open>
  C3. When no path of the batch is a valid image, \<open>load_images\<close> returns \<open>False\<close> and
  the handler is the one it was given: paths, cursor and every other field unchanged.
\<close>

theorem load_images_empty_batch:
  assumes "filter (is_valid_image lib) file_paths = []"
  shows "load_images lib file_paths self = (False, self)"
  using assms by (simp add: load_images_def collect_valid_filter)

theorem load_images_empty_batch_witness:
  "filter (is_valid_image example_lib) [''not_an_image.txt'', ''missing.gif''] = [] \<and>
   load_images example_lib [''not_an_image.txt'', ''missing.gif'']
     (example_handler\<lparr>current_index := 1\<rparr>)
   = (False, example_handler\<lparr>current_index := 1\<rparr>)"
  using load_images_empty_batch [of example_lib "[''not_an_image.txt'', ''missing.gif'']"
      "example_handler\<lparr>current_index := 1\<rparr>"]
  by simp

text \<open>
  C9. \<open>load_images\<close> changes no field but the paths and the cursor: the recorded original
  image and the PhotoImage are the ones of before, so \<open>get_original_size\<close> still returns
  the size recorded by the last render. Moving the cursor does not change it either.
\<close>

theorem load_images_keeps_original:
  "snd (load_images lib file_paths self) =
     self\<lparr>images := images (snd (load_images lib file_paths self)),
          current_index := current_index (snd (load_images lib file_paths self))\<rparr> \<and>
   original_image (snd (load_images lib file_paths self)) = original_image self \<and>
   current_image (snd (load_images lib file_paths self)) = current_image self \<and>
   get_original_size (snd (load_images lib file_paths self)) = get_original_size self \<and>
   get_original_size (snd (next_image self)) = get_original_size self \<and>
   get_original_size (snd (previous_image self)) = get_original_size self"
  by (simp add: load_images_def Let_def get_original_size_def next_image_def
      previous_image_def)

subsection \<open>The cursor\<close>

text \<open>
  C4. After any sequence of calls of \<open>load_images\<close>, \<open>next_image\<close>, \<open>previous_image\<close>
  (and \<open>load_current_image\<close>) on the handler made by \<^verbatim>\<open>__init__\<close>, if the list of paths is
  not empty then the cursor is at least 0 and less than the number of paths.
\<close>

theorem cursor_in_range:
  assumes "images (run cs init) \<noteq> []"
  shows "0 \<le> current_index (run cs init) \<and>
         current_index (run cs init) < int (length (images (run cs init)))"
proof -
  have "cursor_ok (run cs init)"
    by (rule cursor_ok_run) (rule cursor_ok_init)
  with assms show ?thesis
    by (simp add: cursor_ok_def)
qed

theorem cursor_in_range_witness:
  "images (run [Load example_lib [''a.jpg'', ''not_an_image.txt'', ''b.png''],
                Render example_lib 8 8, Next] init) \<noteq> [] \<and>
   0 \<le> current_index (run [Load example_lib [''a.jpg'', ''not_an_image.txt'', ''b.png''],
                Render example_lib 8 8, Next] init) \<and>
   current_index (run [Load example_lib [''a.jpg'', ''not_an_image.txt'', ''b.png''],
                Render example_lib 8 8, Next] init) = 1 \<and>
   int (length (images (run [Load example_lib [''a.jpg'', ''not_an_image.txt'', ''b.png''],
                Render example_lib 8 8, Next] init))) = 2"
  using cursor_in_range [of "[Load example_lib [''a.jpg'', ''not_an_image.txt'', ''b.png''],
                Render example_lib 8 8, Next]"]
  unfolding example_run_next
  by (simp add: example_handler_def)

text \<open>
  C5. \<open>next_image\<close> moves the cursor by one and only to a position that is at most the
  last one; \<open>previous_image\<close> moves it by one and only to a position that is at least 0.
  A call that returns \<open>False\<close> leaves the handler unchanged, and that is what happens on
  the last position for \<open>next_image\<close> and on position 0 for \<open>previous_image\<close>: the cursor
  does not wrap around. Neither changes the paths.
\<close>

theorem next_previous_bounds:
  "(fst (next_image self) \<longrightarrow>
      current_index (snd (next_image self)) = current_index self + 1 \<and>
      current_index (snd (next_image self)) \<le> int (length (images self)) - 1) \<and>
   (\<not> fst (next_image self) \<longrightarrow> snd (next_image self) = self) \<and>
   (current_index self = int (length (images self)) - 1 \<longrightarrow> next_image self = (False, self)) \<and>
   (fst (previous_image self) \<longrightarrow>
      current_index (snd (previous_image self)) = current_index self - 1 \<and>
      0 \<le> current_index (snd (previous_image self))) \<and>
   (\<not> fst (previous_image self) \<longrightarrow> snd (previous_image self) = self) \<and>
   (current_index self = 0 \<longrightarrow> previous_image self = (False, self)) \<and>
   images (snd (next_image self)) = images self \<and>
   images (snd (previous_image self)) = images self"
  by (simp add: next_image_def previous_image_def)

text \<open>
  On the first of two paths \<open>next_image\<close> moves and \<open>previous_image\<close> does not; on the
  second it is the other way round.
\<close>

theorem next_previous_bounds_witness:
  "fst (next_image example_handler) \<and>
   current_index (snd (next_image example_handler)) = 1 \<and>
   current_index example_handler = 0 \<and>
   previous_image example_handler = (False, example_handler) \<and>
   current_index (example_handler\<lparr>current_index := 1\<rparr>)
     = int (length (images (example_handler\<lparr>current_index := 1\<rparr>))) - 1 \<and>
   next_image (example_handler\<lparr>current_index := 1\<rparr>)
     = (False, example_handler\<lparr>current_index := 1\<rparr>) \<and>
   fst (previous_image (example_handler\<lparr>current_index := 1\<rparr>)) \<and>
   current_index (snd (previous_image (example_handler\<lparr>current_index := 1\<rparr>))) = 0"
  using next_previous_bounds [of example_handler]
    next_previous_bounds [of "example_handler\<lparr>current_index := 1\<rparr>"]
  by (simp add: example_handler_def next_image_def previous_image_def)

text \<open>
  C6. \<open>has_next\<close> is true exactly when the cursor is less than the number of paths
  minus one, and \<open>has_previous\<close> exactly when the cursor is greater than 0.
\<close>

theorem has_next_has_previous:
  "has_next self = (current_index self < int (length (images self)) - 1) \<and>
   has_previous self = (current_index self > 0)"
  by (simp add: has_next_def has_previous_def)

subsection \<open>Rendering\<close>

text \<open>
  C8. When the current path does not decode (\<^verbatim>\<open>Image.open\<close> raises, or \<^verbatim>\<open>img.copy()\<close>
  raises while reading the pixels), \<open>load_current_image\<close> returns \<open>None\<close> and the handler is
  unchanged: \<open>get_original_size\<close> returns what it returned before the call.
\<close>

theorem render_decode_failure:
  assumes "py_index (images self) (current_index self) = Some path"
    and "image_open lib path = None \<or>
         (\<exists>img. image_open lib path = Some img \<and> image_copy lib img = None)"
  shows "load_current_image lib w h self = (None, self) \<and>
         get_original_size (snd (load_current_image lib w h self)) = get_original_size self"
proof -
  from assms(1) have "\<not> (images self = [] \<or> current_index self \<ge> int (length (images self)))"
    using py_index_guard [of "images self" "current_index self"] by auto
  with assms have "load_current_image lib w h self = (None, self)"
    by (auto simp: load_current_image_def)
  then show ?thesis by simp
qed

text \<open>
  \<^verbatim>\<open>b.png\<close> is removed from the disk after the set was loaded and \<^verbatim>\<open>a.jpg\<close> rendered; the
  render of \<^verbatim>\<open>b.png\<close> fails and the size of \<^verbatim>\<open>a.jpg\<close> stays recorded.
\<close>

theorem render_decode_failure_witness:
  "py_index (images (example_handler\<lparr>current_index := 1\<rparr>))
     (current_index (example_handler\<lparr>current_index := 1\<rparr>)) = Some ''b.png'' \<and>
   image_open example_lib_removed ''b.png'' = None \<and>
   load_current_image example_lib_removed 8 8 (example_handler\<lparr>current_index := 1\<rparr>)
     = (None, example_handler\<lparr>current_index := 1\<rparr>) \<and>
   get_original_size
     (snd (load_current_image example_lib_removed 8 8 (example_handler\<lparr>current_index := 1\<rparr>)))
     = Some (4, 2)"
  using render_decode_failure [of "example_handler\<lparr>current_index := 1\<rparr>" "''b.png''"
      example_lib_removed 8 8]
  by (simp add: example_open py_index_def example_handler_def get_original_size_def)

text \<open>
  C7, as the code has it. When \<open>load_current_image\<close> returns \<open>None\<close> the recorded original
  is not cleared. \<open>get_original_size\<close> afterwards returns what it returned before the
  call when there was no current path or the path did not decode, and the size of the
  image just decoded when the failure came after the decode (line 104 has assigned
  \<^verbatim>\<open>self.original_image\<close> by then). So a size recorded before the call is never lost.
\<close>

theorem render_failure_original_size:
  assumes "fst (load_current_image lib w h self) = None"
  shows "get_original_size (snd (load_current_image lib w h self)) =
           (case Option.bind (py_index (images self) (current_index self))
                   (\<lambda>path. Option.bind (image_open lib path) (image_copy lib)) of
              None \<Rightarrow> get_original_size self
            | Some original \<Rightarrow> Some (img_size original)) \<and>
         (get_original_size self \<noteq> None \<longrightarrow>
            get_original_size (snd (load_current_image lib w h self)) \<noteq> None)"
proof (cases "images self = [] \<or> current_index self \<ge> int (length (images self))")
  case True
  then have "py_index (images self) (current_index self) = None"
    by (auto intro: py_index_guard)
  with True show ?thesis
    by (simp add: load_current_image_def)
next
  case False
  then show ?thesis
    by (simp add: load_current_image_def Let_def get_original_size_def
        split: option.splits)
qed

text \<open>
  A render of \<^verbatim>\<open>a.jpg\<close> into a frame of -5 by -5 fails in the resize, after the decode:
  no size was recorded before the call, and the size of \<^verbatim>\<open>a.jpg\<close> is recorded after it.
\<close>

theorem render_failure_original_size_witness:
  "fst (load_current_image example_lib (- 5) (- 5)
          \<lparr>images = [''a.jpg'', ''b.png''], current_index = 0,
           current_image = None, original_image = None\<rparr>) = None \<and>
   get_original_size
     (snd (load_current_image example_lib (- 5) (- 5)
          \<lparr>images = [''a.jpg'', ''b.png''], current_index = 0,
           current_image = None, original_image = None\<rparr>)) = Some (4, 2)"
  using render_failure_original_size [of example_lib "- 5" "- 5"
      "\<lparr>images = [''a.jpg'', ''b.png''], current_index = 0,
        current_image = None, original_image = None\<rparr>"]
  by (simp add: load_current_image_def py_index_def example_open example_fit_negative)

text \<open>
  C7 as stated fails: after a load, a render of \<^verbatim>\<open>a.jpg\<close> and a step to \<^verbatim>\<open>b.png\<close>, which
  has been removed from the disk in between, the render returns \<open>None\<close> and
  \<open>get_original_size\<close> is not \<open>None\<close> (it is still the size of \<^verbatim>\<open>a.jpg\<close>).
\<close>

theorem render_failure_not_cleared:
  "fst (load_current_image example_lib_removed 8 8
          (run [Load example_lib [''a.jpg'', ''not_an_image.txt'', ''b.png''],
                Render example_lib 8 8, Next] init)) = None \<and>
   get_original_size
     (snd (load_current_image example_lib_removed 8 8
          (run [Load example_lib [''a.jpg'', ''not_an_image.txt'', ''b.png''],
                Render example_lib 8 8, Next] init))) \<noteq> None"
  unfolding example_run_next
  by (simp add: load_current_image_def py_index_def example_open
      example_handler_def get_original_size_def)

text \<open>
  C10. When the list of paths is empty or the cursor is out of range,
  \<open>load_current_image\<close> returns \<open>None\<close> and the handler is unchanged, whatever the library
  would answer: nothing is opened or decoded. This holds for every handler record, with
  the range of Python's list index (a cursor that is at least the number of paths is
  stopped by the guard of line 96, one that is less than minus the number of paths by the
  IndexError of the lookup inside the \<^verbatim>\<open>try\<close>), and for every handler that a sequence of
  calls makes from the one of \<^verbatim>\<open>__init__\<close>, with the range from 0 to the number of paths
  minus one.
\<close>

theorem render_without_current_path:
  "(images self = [] \<or> current_index self \<ge> int (length (images self)) \<or>
      current_index self < - int (length (images self)) \<longrightarrow>
    load_current_image lib w h self = (None, self)) \<and>
   (images (run cs init) = [] \<or> current_index (run cs init) < 0 \<or>
      current_index (run cs init) \<ge> int (length (images (run cs init))) \<longrightarrow>
    load_current_image lib w h (run cs init) = (None, run cs init))"
proof (intro conjI impI)
  assume "images self = [] \<or> current_index self \<ge> int (length (images self)) \<or>
          current_index self < - int (length (images self))"
  then have "py_index (images self) (current_index self) = None"
    by (rule py_index_guard)
  then show "load_current_image lib w h self = (None, self)"
    by (simp add: load_current_image_def)
next
  assume out: "images (run cs init) = [] \<or> current_index (run cs init) < 0 \<or>
          current_index (run cs init) \<ge> int (length (images (run cs init)))"
  have "cursor_ok (run cs init)"
    by (rule cursor_ok_run) (rule cursor_ok_init)
  with out have "images (run cs init) = [] \<or>
      current_index (run cs init) \<ge> int (length (images (run cs init)))"
    by (auto simp: cursor_ok_def)
  then show "load_current_image lib w h (run cs init) = (None, run cs init)"
    by (simp add: load_current_image_def)
qed

text \<open>
  A cursor of 2 on two paths, and the handler of \<^verbatim>\<open>__init__\<close>, also after a load of a batch
  with no valid image.
\<close>

theorem render_without_current_path_witness:
  "current_index (example_handler\<lparr>current_index := 2\<rparr>)
     \<ge> int (length (images (example_handler\<lparr>current_index := 2\<rparr>))) \<and>
   load_current_image example_lib 8 8 (example_handler\<lparr>current_index := 2\<rparr>)
     = (None, example_handler\<lparr>current_index := 2\<rparr>) \<and>
   images (run [Load example_lib [''not_an_image.txt'']] init) = [] \<and>
   load_current_image example_lib 8 8 (run [Load example_lib [''not_an_image.txt'']] init)
     = (None, run [Load example_lib [''not_an_image.txt'']] init)"
  using render_without_current_path [of "example_handler\<lparr>current_index := 2\<rparr>"
      example_lib 8 8 "[Load example_lib [''not_an_image.txt'']]"]
  by (simp add: init_def example_handler_def load_images_def)




end
